theory Spec2Isabelle
  imports Main "HOL-Library.AList" "HOL-Library.Sublist"
begin

section \<open>HealthDataExtractor: values, type names, schemas\<close>

text \<open>
  A shallow embedding of \<^verbatim>\<open>HealthDataExtractor.py\<close> and of the driver
  \<^verbatim>\<open>HealthStats.py\<close>. Python strings are \<open>string\<close>; a raised exception is
  the \<open>Inl\<close> side of a sum. The f-string of \<^verbatim>\<open>format_value\<close> has backslashes inside
  its replacement field, which Python accepts from version 3.12 on; the module is read
  with that grammar.
\<close>

subsection \<open>Exceptions and characters\<close>

datatype error =
    AttributeError string  \<comment> \<open>the attribute that was looked up and is not there\<close>
  | KeyError string        \<comment> \<open>the key that was looked up and is not there\<close>

definition backslash :: char where
  "backslash = CHR 0x5C"

definition dquote :: char where
  "dquote = CHR 0x22"

definition newline :: char where
  "newline = CHR 0x0A"

subsection \<open>\<^verbatim>\<open>str.replace\<close> and \<^verbatim>\<open>str.join\<close>\<close>

text \<open>
  \<^verbatim>\<open>s.replace(old, new)\<close> scans from the left and replaces the non-overlapping
  occurrences of \<open>old\<close>. For the empty \<open>old\<close> Python puts \<open>new\<close> before every
  character and at the end.
\<close>

fun replace_from :: "string \<Rightarrow> string \<Rightarrow> string \<Rightarrow> string" where
  "replace_from old new [] = []"
| "replace_from old new (c # cs) =
     (if old \<noteq> [] \<and> prefix old (c # cs)
      then new @ replace_from old new (drop (length old) (c # cs))
      else c # replace_from old new cs)"

definition str_replace :: "string \<Rightarrow> string \<Rightarrow> string \<Rightarrow> string" where
  "str_replace old new s =
     (if old = [] then new @ concat (map (\<lambda>c. c # new) s) else replace_from old new s)"

fun join :: "string \<Rightarrow> string list \<Rightarrow> string" where
  "join sep [] = []"
| "join sep [x] = x"
| "join sep (x # y # ys) = x @ sep @ join sep (y # ys)"

subsection \<open>\<^verbatim>\<open>format_value\<close>\<close>

text \<open>
  \<^verbatim>\<open>
  def format_value(value, datatype):
      if value is None:
          return ''
      elif datatype == 's':
          return f'"{value.replace("\\", "\\\\").replace("\"", "\\\"")}"'
      elif datatype in ('n', 'd'):
          return value
      else:
          raise KeyError(f'Unexpected format value: {datatype}')
  \<close>
  The value is \<open>None\<close> or a string (an attribute of the parsed document).
\<close>

definition format_value :: "string option \<Rightarrow> string \<Rightarrow> error + string" where
  "format_value value datatype =
     (case value of
        None \<Rightarrow> Inr []
      | Some v \<Rightarrow>
          if datatype = ''s''
          then Inr ([dquote]
                    @ str_replace [dquote] [backslash, dquote]
                        (str_replace [backslash] [backslash, backslash] v)
                    @ [dquote])
          else if datatype \<in> {''n'', ''d''} then Inr v
          else Inl (KeyError (''Unexpected format value: '' @ datatype)))"

subsection \<open>\<^verbatim>\<open>PREFIX_RE\<close> and \<^verbatim>\<open>shorten_type_name\<close>\<close>

text \<open>
  \<^verbatim>\<open>PREFIX_RE = re.compile('^HK.*TypeIdentifier(.+)$')\<close>, used through
  \<^verbatim>\<open>re.match\<close>. The matcher below is the backtracking search of that one
  expression, piece by piece: a literal, the greedy \<^verbatim>\<open>.*\<close> (longest first, giving
  characters back one at a time), a literal, the greedy group \<^verbatim>\<open>(.+)\<close>, and \<^verbatim>\<open>$\<close>.
  Without flags \<^verbatim>\<open>.\<close> matches every character but the line feed, and \<^verbatim>\<open>$\<close>
  matches at the end of the string and also just before a line feed that ends it.
  The result is group 1 of the match object, or \<open>None\<close>.
\<close>

fun match_literal :: "string \<Rightarrow> string \<Rightarrow> string option" where
  "match_literal [] s = Some s"
| "match_literal (p # ps) [] = None"
| "match_literal (p # ps) (c # cs) = (if p = c then match_literal ps cs else None)"

definition match_group_end :: "string \<Rightarrow> string option" where
  "match_group_end s =
     (let g = takeWhile (\<lambda>c. c \<noteq> newline) s;
          r = dropWhile (\<lambda>c. c \<noteq> newline) s
      in if g \<noteq> [] \<and> (r = [] \<or> r = [newline]) then Some g else None)"

definition match_marker :: "string \<Rightarrow> string option" where
  "match_marker s =
     (case match_literal ''TypeIdentifier'' s of
        None \<Rightarrow> None
      | Some r \<Rightarrow> match_group_end r)"

fun match_dotstar :: "string \<Rightarrow> string option" where
  "match_dotstar [] = match_marker []"
| "match_dotstar (c # cs) =
     (case (if c = newline then None else match_dotstar cs) of
        Some g \<Rightarrow> Some g
      | None \<Rightarrow> match_marker (c # cs))"

definition re_match_PREFIX_RE :: "string \<Rightarrow> string option" where
  "re_match_PREFIX_RE name =
     (case match_literal ''HK'' name of
        None \<Rightarrow> None
      | Some r \<Rightarrow> match_dotstar r)"

text \<open>
  \<^verbatim>\<open>
  def shorten_type_name(name):
      m = re.match(PREFIX_RE, name)
      return m.group(1)
  \<close>
  When nothing matches, \<open>m\<close> is \<open>None\<close> and \<^verbatim>\<open>m.group\<close> raises AttributeError.
\<close>

definition shorten_type_name :: "string \<Rightarrow> error + string" where
  "shorten_type_name name =
     (case re_match_PREFIX_RE name of
        None \<Rightarrow> Inl (AttributeError ''group'')
      | Some g \<Rightarrow> Inr g)"

subsection \<open>The schema tables\<close>

text \<open>
  \<^verbatim>\<open>RECORD_FIELDS\<close>, \<^verbatim>\<open>ACTIVITY_SUMMARY_FIELDS\<close> and \<^verbatim>\<open>WORKOUT_FIELDS\<close> are
  ordered dictionaries from a field name to its datatype letter; \<^verbatim>\<open>FIELDS\<close> maps the
  three tags to them. A lookup of any other key raises KeyError, which is \<open>None\<close> here.
\<close>

definition RECORD_FIELDS :: "(string \<times> string) list" where
  "RECORD_FIELDS =
     [(''sourceName'', ''s''), (''sourceVersion'', ''s''), (''device'', ''s''),
      (''type'', ''s''), (''unit'', ''s''), (''creationDate'', ''d''),
      (''startDate'', ''d''), (''endDate'', ''d''), (''value'', ''n'')]"

definition ACTIVITY_SUMMARY_FIELDS :: "(string \<times> string) list" where
  "ACTIVITY_SUMMARY_FIELDS =
     [(''dateComponents'', ''d''), (''activeEnergyBurned'', ''n''),
      (''activeEnergyBurnedGoal'', ''n''), (''activeEnergyBurnedUnit'', ''s''),
      (''appleExerciseTime'', ''s''), (''appleExerciseTimeGoal'', ''s''),
      (''appleStandHours'', ''n''), (''appleStandHoursGoal'', ''n'')]"

definition WORKOUT_FIELDS :: "(string \<times> string) list" where
  "WORKOUT_FIELDS =
     [(''sourceName'', ''s''), (''sourceVersion'', ''s''), (''device'', ''s''),
      (''creationDate'', ''d''), (''startDate'', ''d''), (''endDate'', ''d''),
      (''workoutActivityType'', ''s''), (''duration'', ''n''), (''durationUnit'', ''s''),
      (''totalDistance'', ''n''), (''totalDistanceUnit'', ''s''),
      (''totalEnergyBurned'', ''n''), (''totalEnergyBurnedUnit'', ''s'')]"

definition FIELDS :: "string \<Rightarrow> (string \<times> string) list option" where
  "FIELDS kind =
     (if kind = ''Record'' then Some RECORD_FIELDS
      else if kind = ''ActivitySummary'' then Some ACTIVITY_SUMMARY_FIELDS
      else if kind = ''Workout'' then Some WORKOUT_FIELDS
      else None)"

definition FIELDS_keys :: "string list" where
  "FIELDS_keys = [''Record'', ''ActivitySummary'', ''Workout'']"

section \<open>The extractor object and its surroundings\<close>

text \<open>
  An entry of the document is an \<^verbatim>\<open>Element\<close>: its tag and its attribute dictionary,
  kept as an association list in document order. A \<^verbatim>\<open>Counter\<close> is a dictionary
  too, in insertion order, from a key to its count.
\<close>

record node =
  tag :: string
  attrib :: "(string \<times> string) list"

type_synonym counter = "(string \<times> nat) list"

text \<open>\<^verbatim>\<open>c[k] += 1\<close>: a key that is missing counts as zero and is added at the end.\<close>

definition counter_incr :: "string \<Rightarrow> counter \<Rightarrow> counter" where
  "counter_incr k c =
     AList.update k (case map_of c k of None \<Rightarrow> 1 | Some n \<Rightarrow> n + 1) c"

text \<open>
  A file object opened for writing: the path it was opened on and the text written
  through it that has not reached the file yet. Python keeps written text in the buffer
  of the object; the text reaches the file when the buffer is flushed, at the position
  of the object, which is 0 after \<^verbatim>\<open>open(path, 'w')\<close>, over what the file holds
  there. In this program that is when the object is closed, or released. (A text longer
  than the buffer is passed on in pieces before; the file is the same after the close,
  unless another object open on the same path has written in between.)
\<close>

record file_object =
  fo_path :: string
  fo_text :: string

text \<open>
  The attributes of the object. \<open>handles\<close> and \<open>paths\<close> are assigned by
  \<^verbatim>\<open>open_for_writing\<close> only; the model starts them empty.
\<close>

record extractor =
  directory :: string
  nodes :: "node list"
  record_types :: counter
  other_types :: counter
  tags :: counter
  fields_counter :: counter  \<comment> \<open>\<^verbatim>\<open>self.fields\<close>\<close>
  handles :: "(string \<times> file_object) list"
  paths :: "(string \<times> string) list"

text \<open>
  What the program leaves outside the object: the files as they are on disk (path and
  content) and the lines it printed. A raised exception keeps both as they were at the
  raise.
\<close>

record world =
  files :: "(string \<times> string) list"
  stdout :: "string list"

type_synonym result = "error \<times> world + extractor \<times> world"

text \<open>
  \<^verbatim>\<open>open(path, 'w')\<close> creates the file or empties it and returns a new file
  object; \<^verbatim>\<open>f.write(text)\<close> adds to the text of the object; \<^verbatim>\<open>f.close()\<close>
  puts the text of the object into the file, from its beginning on.
\<close>

definition file_open_w :: "string \<Rightarrow> world \<Rightarrow> file_object \<times> world" where
  "file_open_w path w =
     (\<lparr>fo_path = path, fo_text = []\<rparr>, w\<lparr>files := AList.update path [] (files w)\<rparr>)"

definition file_write :: "string \<Rightarrow> file_object \<Rightarrow> file_object" where
  "file_write text f = f\<lparr>fo_text := fo_text f @ text\<rparr>"

definition file_close :: "file_object \<Rightarrow> world \<Rightarrow> world" where
  "file_close f w =
     (let content = (case map_of (files w) (fo_path f) of None \<Rightarrow> [] | Some c \<Rightarrow> c)
      in w\<lparr>files := AList.update (fo_path f)
                       (fo_text f @ drop (length (fo_text f)) content) (files w)\<rparr>)"

text \<open>\<^verbatim>\<open>os.path.join(a, b)\<close> of \<^verbatim>\<open>posixpath\<close>, for two components.\<close>

definition os_path_join :: "string \<Rightarrow> string \<Rightarrow> string" where
  "os_path_join a b =
     (if take 1 b = ''/'' then b
      else if a = [] \<or> last a = CHR ''/'' then a @ b
      else a @ ''/'' @ b)"

subsection \<open>\<^verbatim>\<open>shorten_type_names\<close>\<close>

text \<open>
  \<^verbatim>\<open>
  for node in self.nodes:
      if node.tag == 'Record':
          if 'type' in node.attrib:
              node.attrib['type'] = shorten_type_name(node.attrib['type'])
  \<close>
\<close>

fun shorten_nodes :: "node list \<Rightarrow> error + node list" where
  "shorten_nodes [] = Inr []"
| "shorten_nodes (n # ns) =
     (case (if tag n = ''Record''
            then (case map_of (attrib n) ''type'' of
                    None \<Rightarrow> Inr n
                  | Some t \<Rightarrow>
                      (case shorten_type_name t of
                         Inl e \<Rightarrow> Inl e
                       | Inr t' \<Rightarrow> Inr (n\<lparr>attrib := AList.update ''type'' t' (attrib n)\<rparr>)))
            else Inr n) of
        Inl e \<Rightarrow> Inl e
      | Inr n' \<Rightarrow>
          (case shorten_nodes ns of
             Inl e \<Rightarrow> Inl e
           | Inr ns' \<Rightarrow> Inr (n' # ns')))"

definition shorten_type_names :: "extractor \<Rightarrow> error + extractor" where
  "shorten_type_names self =
     (case shorten_nodes (nodes self) of
        Inl e \<Rightarrow> Inl e
      | Inr ns \<Rightarrow> Inr (self\<lparr>nodes := ns\<rparr>))"

subsection \<open>\<^verbatim>\<open>count_record_types\<close>\<close>

text \<open>
  \<^verbatim>\<open>
  self.record_types = Counter()
  self.other_types = Counter()
  for record in self.nodes:
      if record.tag == 'Record':
          self.record_types[record.attrib['type']] += 1
      elif record.tag in ('ActivitySummary', 'Workout'):
          self.other_types[record.tag] += 1
      elif record.tag in ('Export', 'Me'):
          pass
      else:
          print(f'Unknown node of type: {record.tag}')
  \<close>
  \<^verbatim>\<open>record.attrib['type']\<close> raises KeyError when the entry has no such attribute.
\<close>

fun count_record_types_loop :: "node list \<Rightarrow> extractor \<Rightarrow> world \<Rightarrow> result" where
  "count_record_types_loop [] self w = Inr (self, w)"
| "count_record_types_loop (r # rs) self w =
     (if tag r = ''Record'' then
        (case map_of (attrib r) ''type'' of
           None \<Rightarrow> Inl (KeyError ''type'', w)
         | Some t \<Rightarrow>
             count_record_types_loop rs
               (self\<lparr>record_types := counter_incr t (record_types self)\<rparr>) w)
      else if tag r \<in> {''ActivitySummary'', ''Workout''} then
        count_record_types_loop rs
          (self\<lparr>other_types := counter_incr (tag r) (other_types self)\<rparr>) w
      else if tag r \<in> {''Export'', ''Me''} then
        count_record_types_loop rs self w
      else
        count_record_types_loop rs self
          (w\<lparr>stdout := stdout w @ [''Unknown node of type: '' @ tag r]\<rparr>))"

definition count_record_types :: "extractor \<Rightarrow> world \<Rightarrow> result" where
  "count_record_types self w =
     count_record_types_loop (nodes self) (self\<lparr>record_types := [], other_types := []\<rparr>) w"

subsection \<open>\<^verbatim>\<open>count_tags_and_fields\<close>\<close>

text \<open>
  \<^verbatim>\<open>
  self.tags = Counter()
  self.fields = Counter()
  for record in self.nodes:
      self.tags[record.tag] += 1
      for k in record.keys():
          self.field[k] += 1
  \<close>
  The object has an attribute \<^verbatim>\<open>fields\<close> and none called \<^verbatim>\<open>field\<close>: the first
  pass through the inner loop raises AttributeError.
\<close>

fun count_keys_loop :: "string list \<Rightarrow> extractor \<Rightarrow> error + extractor" where
  "count_keys_loop [] self = Inr self"
| "count_keys_loop (k # ks) self = Inl (AttributeError ''field'')"

fun count_tags_loop :: "node list \<Rightarrow> extractor \<Rightarrow> error + extractor" where
  "count_tags_loop [] self = Inr self"
| "count_tags_loop (r # rs) self =
     (case count_keys_loop (map fst (attrib r))
             (self\<lparr>tags := counter_incr (tag r) (tags self)\<rparr>) of
        Inl e \<Rightarrow> Inl e
      | Inr self' \<Rightarrow> count_tags_loop rs self')"

definition count_tags_and_fields :: "extractor \<Rightarrow> error + extractor" where
  "count_tags_and_fields self =
     count_tags_loop (nodes self) (self\<lparr>tags := [], fields_counter := []\<rparr>)"

subsection \<open>The constructor\<close>

text \<open>
  \<^verbatim>\<open>__init__(self, path)\<close> parses the file and keeps the children of the root in
  document order; then it shortens the type names and counts. The model takes what the
  parser and \<^verbatim>\<open>os.path\<close> return for the path: the directory and the entries.
\<close>

definition HealthDataExtractor_init :: "string \<Rightarrow> node list \<Rightarrow> world \<Rightarrow> result" where
  "HealthDataExtractor_init dir doc w =
     (let self = \<lparr>directory = dir, nodes = doc, record_types = [], other_types = [],
                  tags = [], fields_counter = [], handles = [], paths = []\<rparr>
      in case shorten_type_names self of
           Inl e \<Rightarrow> Inl (e, w)
         | Inr self1 \<Rightarrow>
             (case count_record_types self1 w of
                Inl ew \<Rightarrow> Inl ew
              | Inr (self2, w2) \<Rightarrow>
                  (case count_tags_and_fields self2 of
                     Inl e \<Rightarrow> Inl (e, w2)
                   | Inr self3 \<Rightarrow> Inr (self3, w2))))"

section \<open>Writing the files\<close>

subsection \<open>\<^verbatim>\<open>open_for_writing\<close>\<close>

text \<open>
  \<^verbatim>\<open>
  self.handles = {}
  self.paths = {}
  for kind in (list(self.record_types) + list(self.other_types)):
      path = os.path.join(self.directory, f'{shorten_type_name(kind)}.csv')
      self.paths[kind] = path
      self.handles[kind] = open(path, 'w')
      header_type = kind if kind in ('Workout', 'ActivitySummary') else 'Record'
      self.handles[kind].write(','.join(FIELDS[header_type].keys()) + '\n')
  \<close>
  The file name is built from \<^verbatim>\<open>shorten_type_name(kind)\<close>, so the regular
  expression is applied to the kind once more. Opening a file is taken to succeed. When
  \<^verbatim>\<open>self.handles[kind]\<close> already holds a file object (a kind that comes twice in
  the list), the assignment releases that object, which closes it.
\<close>

fun open_loop :: "string list \<Rightarrow> extractor \<Rightarrow> world \<Rightarrow> result" where
  "open_loop [] self w = Inr (self, w)"
| "open_loop (kind # kinds) self w =
     (case shorten_type_name kind of
        Inl e \<Rightarrow> Inl (e, w)
      | Inr short \<Rightarrow>
          (let path = os_path_join (directory self) (short @ ''.csv'');
               self1 = self\<lparr>paths := AList.update kind path (paths self)\<rparr>;
               (f, w1) = file_open_w path w;
               w2 = (case map_of (handles self1) kind of
                       None \<Rightarrow> w1
                     | Some old \<Rightarrow> file_close old w1);
               self2 = self1\<lparr>handles := AList.update kind f (handles self1)\<rparr>;
               header_type = (if kind \<in> {''Workout'', ''ActivitySummary''} then kind
                              else ''Record'')
           in case FIELDS header_type of
                None \<Rightarrow> Inl (KeyError header_type, w2)
              | Some schema \<Rightarrow>
                  open_loop kinds
                    (self2\<lparr>handles :=
                       AList.update kind (file_write (join '','' (map fst schema) @ [newline]) f)
                         (handles self2)\<rparr>)
                    w2))"

definition open_for_writing :: "extractor \<Rightarrow> world \<Rightarrow> result" where
  "open_for_writing self w =
     open_loop (map fst (record_types self) @ map fst (other_types self))
       (self\<lparr>handles := [], paths := []\<rparr>) w"

subsection \<open>\<^verbatim>\<open>write_record\<close>\<close>

text \<open>
  \<^verbatim>\<open>
  kinds = FIELDS.keys()
  for node in self.nodes:
      if node.tag in kinds:
          attributes = node.attrib
          kind = attributes['type'] if node.tag == 'Record' else node.tag
          values = [format_value(attributes.get(field), datatype)
                    for (field, datatype) in FIELDS[node.tag].items()]
          line = f'{",".join(values)}\n'
          self.handles[kind].write(line)
  \<close>
  \<open>row_values\<close> is the list comprehension: one formatted value for every item of the
  schema, in its order, with \<^verbatim>\<open>attributes.get(field)\<close> being \<open>None\<close> for an
  attribute the entry does not have. \<open>write_record_node\<close> is the body of the loop,
  for one entry.
\<close>

fun row_values :: "(string \<times> string) list \<Rightarrow> (string \<times> string) list \<Rightarrow> error + string list" where
  "row_values attributes [] = Inr []"
| "row_values attributes ((field, datatype) # items) =
     (case format_value (map_of attributes field) datatype of
        Inl e \<Rightarrow> Inl e
      | Inr v \<Rightarrow>
          (case row_values attributes items of
             Inl e \<Rightarrow> Inl e
           | Inr vs \<Rightarrow> Inr (v # vs)))"

definition resolve_kind :: "node \<Rightarrow> error + string" where
  \<comment> \<open>\<^verbatim>\<open>attributes['type'] if node.tag == 'Record' else node.tag\<close>\<close>
  "resolve_kind node =
     (if tag node = ''Record''
      then (case map_of (attrib node) ''type'' of
              None \<Rightarrow> Inl (KeyError ''type'')
            | Some t \<Rightarrow> Inr t)
      else Inr (tag node))"

definition write_record_node :: "node \<Rightarrow> extractor \<Rightarrow> world \<Rightarrow> result" where
  "write_record_node node self w =
     (if tag node \<in> set FIELDS_keys then
        (case resolve_kind node of
           Inl e \<Rightarrow> Inl (e, w)
         | Inr kind \<Rightarrow>
             (case FIELDS (tag node) of
                None \<Rightarrow> Inl (KeyError (tag node), w)
              | Some schema \<Rightarrow>
                  (case row_values (attrib node) schema of
                     Inl e \<Rightarrow> Inl (e, w)
                   | Inr vals \<Rightarrow>
                       (case map_of (handles self) kind of
                          None \<Rightarrow> Inl (KeyError kind, w)
                        | Some f \<Rightarrow>
                            Inr (self\<lparr>handles :=
                                   AList.update kind (file_write (join '','' vals @ [newline]) f)
                                     (handles self)\<rparr>, w)))))
      else Inr (self, w))"

fun write_record_loop :: "node list \<Rightarrow> extractor \<Rightarrow> world \<Rightarrow> result" where
  "write_record_loop [] self w = Inr (self, w)"
| "write_record_loop (node # ns) self w =
     (case write_record_node node self w of
        Inl ew \<Rightarrow> Inl ew
      | Inr (self1, w1) \<Rightarrow> write_record_loop ns self1 w1)"


subsection \<open>\<^verbatim>\<open>close_files\<close>\<close>

text \<open>
  \<^verbatim>\<open>
  for (kind, f) in self.handles.items():
      f.close()
      self.report('Written %s data.' % shorten_type_name(kind))
  \<close>
  The class defines no \<^verbatim>\<open>report\<close>; the attribute is looked up before the argument
  is evaluated, so the first handle closed ends the loop with AttributeError.
\<close>

fun close_loop :: "(string \<times> file_object) list \<Rightarrow> extractor \<Rightarrow> world \<Rightarrow> result" where
  "close_loop [] self w = Inr (self, w)"
| "close_loop ((kind, f) # hs) self w = Inl (AttributeError ''report'', file_close f w)"

definition close_files :: "extractor \<Rightarrow> world \<Rightarrow> result" where
  "close_files self w = close_loop (handles self) self w"

subsection \<open>\<^verbatim>\<open>extract\<close>\<close>

text \<open>
  \<^verbatim>\<open>
  self.open_for_writing()
  self.write_records()
  self.close_files()
  \<close>
  The method of the class is \<^verbatim>\<open>write_record\<close>; the object has no attribute
  \<^verbatim>\<open>write_records\<close>, and looking it up raises AttributeError. The method is
  \<open>extract_method\<close> here, \<open>extract\<close> being a word of the proof language.
\<close>

definition write_records :: "extractor \<Rightarrow> world \<Rightarrow> result" where
  "write_records self w = Inl (AttributeError ''write_records'', w)"

definition extract_method :: "extractor \<Rightarrow> world \<Rightarrow> result" where
  "extract_method self w =
     (case open_for_writing self w of
        Inl ew \<Rightarrow> Inl ew
      | Inr (self1, w1) \<Rightarrow>
          (case write_records self1 w1 of
             Inl ew \<Rightarrow> Inl ew
           | Inr (self2, w2) \<Rightarrow> close_files self2 w2))"

section \<open>The summary and the driver\<close>

text \<open>
  \<^verbatim>\<open>
  def __str__(self) -> str:
      s = ''
      def append_counter(s, name, counter):
          s += f'\n{name}\n'
          for key, count in counter.most_common():
              s += f'{key}: {count}\n'
      append_counter(s, 'Tags', self.tags)
      append_counter(s, 'Fields', self.fields)
      append_counter(s, 'Record Types', self.record_types)
      return s
  \<close>
  \<^verbatim>\<open>most_common()\<close> sorts the items by count, largest first, keeping the order of
  insertion among equal counts. Inside \<^verbatim>\<open>append_counter\<close> the name \<open>s\<close> is the
  parameter: \<^verbatim>\<open>s += ...\<close> binds it to a new string, the function returns \<open>None\<close>,
  and the \<open>s\<close> of \<^verbatim>\<open>__str__\<close> is not touched.
\<close>

fun digits :: "nat \<Rightarrow> string" where
  "digits n =
     (if n < 10 then [char_of (48 + n)]
      else digits (n div 10) @ [char_of (48 + n mod 10)])"

definition most_common :: "counter \<Rightarrow> counter" where
  "most_common c = sort_key (\<lambda>(key, count). - int count) c"

definition append_counter_local :: "string \<Rightarrow> string \<Rightarrow> counter \<Rightarrow> string" where
  \<comment> \<open>the value of the local \<open>s\<close> when \<^verbatim>\<open>append_counter\<close> ends\<close>
  "append_counter_local s name counter =
     fold (\<lambda>(key, count) s. s @ key @ '': '' @ digits count @ [newline])
       (most_common counter) (s @ [newline] @ name @ [newline])"

definition append_counter :: "string \<Rightarrow> string \<Rightarrow> counter \<Rightarrow> unit" where
  "append_counter s name counter = (let s_local = append_counter_local s name counter in ())"

definition HealthDataExtractor_str :: "extractor \<Rightarrow> string" where
  "HealthDataExtractor_str self =
     (let s = [];
          u1 = append_counter s ''Tags'' (tags self);
          u2 = append_counter s ''Fields'' (fields_counter self);
          u3 = append_counter s ''Record Types'' (record_types self)
      in s)"

text \<open>
  \<^verbatim>\<open>HealthStats.py\<close>:
  \<^verbatim>\<open>
  extractor = HealthDataExtractor(args.input)
  extractor.extract()
  print(extractor)
  \<close>
\<close>

definition main :: "string \<Rightarrow> node list \<Rightarrow> world \<Rightarrow> error \<times> world + world" where
  "main dir doc w =
     (case HealthDataExtractor_init dir doc w of
        Inl ew \<Rightarrow> Inl ew
      | Inr (extractor, w1) \<Rightarrow>
          (case extract_method extractor w1 of
             Inl ew \<Rightarrow> Inl ew
           | Inr (extractor2, w2) \<Rightarrow>
               Inr (w2\<lparr>stdout := stdout w2 @ [HealthDataExtractor_str extractor2]\<rparr>)))"

section \<open>Notions of the specification\<close>

text \<open>
  The specification speaks of reversing the escaping of a formatted string. Read from
  its words: every character of the raw value becomes one escaped piece (a backslash
  doubled, a double quote preceded by a backslash), and reversing takes the outer quotes
  off and reads the body from the left, a backslash making the next character literal.
\<close>

definition escape_char_spec :: "char \<Rightarrow> string" where
  "escape_char_spec c =
     (if c = backslash then [backslash, backslash]
      else if c = dquote then [backslash, dquote]
      else [c])"

fun unescape_body_spec :: "string \<Rightarrow> string" where
  "unescape_body_spec (c # d # cs) =
     (if c = backslash then d # unescape_body_spec cs else c # unescape_body_spec (d # cs))"
| "unescape_body_spec cs = cs"

definition unescape_spec :: "string \<Rightarrow> string option" where
  "unescape_spec t =
     (if 2 \<le> length t \<and> hd t = dquote \<and> last t = dquote
      then Some (unescape_body_spec (butlast (tl t)))
      else None)"



text \<open>
  The suffix after the marker token: \<open>marker_suffix name r\<close> says that \<open>name\<close> is
  \<^verbatim>\<open>HK\<close>, anything, \<^verbatim>\<open>TypeIdentifier\<close> and then the non-empty \<open>r\<close>.
\<close>

definition marker_suffix :: "string \<Rightarrow> string \<Rightarrow> bool" where
  "marker_suffix name r =
     (r \<noteq> [] \<and> prefix ''HK'' name \<and> suffix (''TypeIdentifier'' @ r) (drop 2 name))"

text \<open>
  An unknown tag is one outside the five that classification names; its message is the
  line printed for it. \<open>without_stdout\<close> forgets the printed lines of an outcome and
  keeps the exception or the object and the files.
\<close>

definition unknown_tag :: "node \<Rightarrow> bool" where
  "unknown_tag n = (tag n \<notin> {''Record'', ''ActivitySummary'', ''Workout'', ''Export'', ''Me''})"

definition unknown_message :: "node \<Rightarrow> string" where
  "unknown_message n = ''Unknown node of type: '' @ tag n"

definition without_stdout :: "result \<Rightarrow> error + extractor \<times> (string \<times> string) list" where
  "without_stdout r = map_sum fst (\<lambda>(self, w). (self, files w)) r"

text \<open>
  The document without its entries of unknown tag, the number of entries of a document
  with a given tag, and the line of a summary section for a key and its count.
\<close>

definition known_part :: "node list \<Rightarrow> node list" where
  "known_part doc = filter (\<lambda>n. \<not> unknown_tag n) doc"

definition tag_count :: "string \<Rightarrow> node list \<Rightarrow> nat" where
  "tag_count t doc = length (filter (\<lambda>n. tag n = t) doc)"

definition summary_line :: "string \<Rightarrow> nat \<Rightarrow> string" where
  "summary_line key count = key @ '': '' @ digits count @ [newline]"

text \<open>A \<^verbatim>\<open>Record\<close> entry without a \<^verbatim>\<open>type\<close> attribute.\<close>

definition typeless_record :: "node \<Rightarrow> bool" where
  "typeless_record n = (tag n = ''Record'' \<and> map_of (attrib n) ''type'' = None)"

section \<open>Properties of the value formatter\<close>

lemma replace_from_single:
  "replace_from [c] new s = concat (map (\<lambda>x. if x = c then new else [x]) s)"
  by (induction s) auto

lemma str_replace_single:
  "str_replace [c] new s = concat (map (\<lambda>x. if x = c then new else [x]) s)"
  by (simp add: str_replace_def replace_from_single)

lemma concat_map_concat_map:
  "concat (map f (concat (map g s))) = concat (map (\<lambda>x. concat (map f (g x))) s)"
  by (induction s) auto

lemma escape_chars:
  "str_replace [dquote] [backslash, dquote] (str_replace [backslash] [backslash, backslash] s)
     = concat (map escape_char_spec s)"
  unfolding str_replace_single concat_map_concat_map
  by (rule arg_cong[where f=concat], rule map_cong)
     (auto simp: escape_char_spec_def backslash_def dquote_def)

lemma unescape_body_plain:
  "c \<noteq> backslash \<Longrightarrow> unescape_body_spec (c # t) = c # unescape_body_spec t"
  by (cases t) simp_all

lemma unescape_body_escaped:
  "unescape_body_spec (escape_char_spec c @ t) = c # unescape_body_spec t"
  by (simp add: escape_char_spec_def unescape_body_plain)

lemma unescape_body_escape:
  "unescape_body_spec (concat (map escape_char_spec s)) = s"
  by (induction s) (simp_all add: unescape_body_escaped)

text \<open>
  Claim C9. \<^verbatim>\<open>format_value(None, k)\<close> is the empty text for every datatype letter
  \<open>k\<close>, the known ones and any other.
\<close>

theorem format_value_None: "format_value None datatype = Inr []"
  by (simp add: format_value_def)


text \<open>
  Claim C3. For every string \<open>s\<close>, \<^verbatim>\<open>format_value(s, 's')\<close> is \<open>s\<close> between double
  quotes with every backslash doubled and every double quote preceded by a backslash;
  reversing the escaping gives \<open>s\<close> back; and \<^verbatim>\<open>He said "hi"\back\<close> formats to
  \<^verbatim>\<open>"He said \"hi\"\\back"\<close>.
\<close>

theorem format_value_string_round_trip:
  "format_value (Some s) ''s'' = Inr ([dquote] @ concat (map escape_char_spec s) @ [dquote])
   \<and> map_sum id unescape_spec (format_value (Some s) ''s'') = Inr (Some s)
   \<and> format_value (Some (''He said '' @ [dquote] @ ''hi'' @ [dquote, backslash] @ ''back'')) ''s''
       = Inr ([dquote] @ ''He said '' @ [backslash, dquote] @ ''hi'' @ [backslash, dquote]
              @ [backslash, backslash] @ ''back'' @ [dquote])"
proof (intro conjI)
  show fmt: "format_value (Some s) ''s'' = Inr ([dquote] @ concat (map escape_char_spec s) @ [dquote])" for s
    by (simp add: format_value_def escape_chars)
  show "map_sum id unescape_spec (format_value (Some s) ''s'') = Inr (Some s)"
    by (simp add: fmt unescape_spec_def unescape_body_escape)
  show "format_value (Some (''He said '' @ [dquote] @ ''hi'' @ [dquote, backslash] @ ''back'')) ''s''
       = Inr ([dquote] @ ''He said '' @ [backslash, dquote] @ ''hi'' @ [backslash, dquote]
              @ [backslash, backslash] @ ''back'' @ [dquote])"
    by (simp add: fmt escape_char_spec_def backslash_def dquote_def)
qed

section \<open>Properties of the row formatting and of the write pass\<close>








section \<open>Properties of the type-name normalizer\<close>

lemma marker_suffix_iff:
  "marker_suffix name r \<longleftrightarrow> r \<noteq> [] \<and> (\<exists>a. name = ''HK'' @ a @ ''TypeIdentifier'' @ r)"
proof
  assume "marker_suffix name r"
  then obtain t a where "r \<noteq> []" "name = ''HK'' @ t" "drop 2 name = a @ ''TypeIdentifier'' @ r"
    unfolding marker_suffix_def prefix_def suffix_def by blast
  then show "r \<noteq> [] \<and> (\<exists>a. name = ''HK'' @ a @ ''TypeIdentifier'' @ r)"
    by auto
next
  assume "r \<noteq> [] \<and> (\<exists>a. name = ''HK'' @ a @ ''TypeIdentifier'' @ r)"
  then show "marker_suffix name r"
    unfolding marker_suffix_def prefix_def suffix_def by auto
qed

lemma match_literal_iff: "match_literal p s = Some r \<longleftrightarrow> s = p @ r"
proof (induction p s rule: match_literal.induct)
  case (1 s)
  show ?case by auto
next
  case (2 p ps)
  show ?case by simp
next
  case (3 p ps c cs)
  then show ?case by auto
qed

text \<open>
  What a match of the group and \<^verbatim>\<open>$\<close> looks like: the group is a non-empty run
  without a line feed, and the string is the group, or the group and one final line feed.
\<close>

lemma match_group_end_iff:
  "match_group_end s = Some g
     \<longleftrightarrow> g \<noteq> [] \<and> newline \<notin> set g \<and> (s = g \<or> s = g @ [newline])"
proof
  assume m: "match_group_end s = Some g"
  let ?P = "\<lambda>c. c \<noteq> newline"
  from m have g: "g = takeWhile ?P s" "g \<noteq> []"
    and r: "dropWhile ?P s = [] \<or> dropWhile ?P s = [newline]"
    by (auto simp: match_group_end_def Let_def split: if_splits)
  have id: "takeWhile ?P s @ dropWhile ?P s = s" by (rule takeWhile_dropWhile_id)
  from r id g(1) have "s = g \<or> s = g @ [newline]"
    by (elim disjE) (simp_all only: append_Nil2 simp_thms)
  moreover from g have "newline \<notin> set g" by (auto dest: set_takeWhileD)
  ultimately show "g \<noteq> [] \<and> newline \<notin> set g \<and> (s = g \<or> s = g @ [newline])"
    using g by simp
next
  assume a: "g \<noteq> [] \<and> newline \<notin> set g \<and> (s = g \<or> s = g @ [newline])"
  then have tw: "takeWhile (\<lambda>c. c \<noteq> newline) g = g"
    and dw: "dropWhile (\<lambda>c. c \<noteq> newline) g = []"
    by (auto simp: takeWhile_eq_all_conv)
  from a consider "s = g" | "s = g @ [newline]" by blast
  then show "match_group_end s = Some g"
  proof cases
    case 1
    show ?thesis unfolding 1 match_group_end_def Let_def tw dw using a by simp
  next
    case 2
    from a have "newline \<notin> set g" by simp
    then have tw2: "takeWhile (\<lambda>c. c \<noteq> newline) (g @ [newline]) = g"
      and dw2: "dropWhile (\<lambda>c. c \<noteq> newline) (g @ [newline]) = [newline]"
      by (induction g) auto
    show ?thesis unfolding 2 match_group_end_def Let_def tw2 dw2 using a by simp
  qed
qed

lemma match_marker_iff:
  "match_marker s = Some g
     \<longleftrightarrow> g \<noteq> [] \<and> newline \<notin> set g
         \<and> (s = ''TypeIdentifier'' @ g \<or> s = ''TypeIdentifier'' @ g @ [newline])"
proof (cases "match_literal ''TypeIdentifier'' s")
  case None
  then have "s \<noteq> ''TypeIdentifier'' @ r" for r
    using match_literal_iff [of "''TypeIdentifier''" s r] by auto
  with None show ?thesis by (simp add: match_marker_def)
next
  case (Some r)
  then have s: "s = ''TypeIdentifier'' @ r" by (simp only: match_literal_iff)
  with Some show ?thesis by (auto simp: match_marker_def match_group_end_iff)
qed

lemma match_marker_length:
  "match_marker s = Some g \<Longrightarrow> length s \<le> 15 + length g \<and> 14 + length g \<le> length s"
  by (auto simp: match_marker_iff)

text \<open>
  The greedy \<^verbatim>\<open>.*\<close>: a match skips a run without a line feed and then matches the
  marker and the group; and where some such split matches, the search finds one whose
  group is no longer (it tries the longest skip first).
\<close>

lemma match_dotstar_sound:
  "match_dotstar s = Some g
     \<Longrightarrow> \<exists>a s'. s = a @ s' \<and> newline \<notin> set a \<and> match_marker s' = Some g"
proof (induction s)
  case Nil
  show ?case
  proof (intro exI conjI)
    show "[] = [] @ ([] :: string)" by simp
    show "newline \<notin> set []" by simp
    show "match_marker [] = Some g" using Nil by simp
  qed
next
  case (Cons c cs)
  show ?case
  proof (cases "c \<noteq> newline \<and> match_dotstar cs \<noteq> None")
    case True
    with Cons.prems have "match_dotstar cs = Some g" by auto
    with Cons.IH obtain a s' where split: "cs = a @ s'" "newline \<notin> set a" "match_marker s' = Some g"
      by blast
    show ?thesis
    proof (intro exI conjI)
      show "c # cs = (c # a) @ s'" using split by simp
      show "newline \<notin> set (c # a)" using split True by auto
      show "match_marker s' = Some g" using split by simp
    qed
  next
    case False
    with Cons.prems have here: "match_marker (c # cs) = Some g" by (auto split: if_splits)
    show ?thesis
    proof (intro exI conjI)
      show "c # cs = [] @ (c # cs)" by simp
      show "newline \<notin> set []" by simp
      show "match_marker (c # cs) = Some g" by (rule here)
    qed
  qed
qed

lemma match_dotstar_at_marker:
  assumes "match_marker s = Some g'"
  shows "\<exists>g. match_dotstar s = Some g \<and> length g \<le> length g'"
proof -
  from assms obtain c cs where s: "s = c # cs" and c: "c \<noteq> newline"
    by (cases s) (auto simp: match_marker_iff newline_def)
  show ?thesis
  proof (cases "match_dotstar cs")
    case None
    with assms s c show ?thesis by simp
  next
    case (Some g)
    then obtain a s' where "cs = a @ s'" "match_marker s' = Some g"
      using match_dotstar_sound by blast
    then have "14 + length g \<le> length cs" using match_marker_length [of s' g] by simp
    moreover from assms s have "Suc (length cs) \<le> 15 + length g'"
      using match_marker_length [of s g'] by simp
    ultimately have "length g \<le> length g'" by simp
    with Some s c show ?thesis by simp
  qed
qed

lemma match_dotstar_complete:
  "newline \<notin> set a \<Longrightarrow> match_marker s = Some g'
     \<Longrightarrow> \<exists>g. match_dotstar (a @ s) = Some g \<and> length g \<le> length g'"
proof (induction a)
  case Nil
  then show ?case using match_dotstar_at_marker by simp
next
  case (Cons x a)
  then obtain g where "match_dotstar (a @ s) = Some g" "length g \<le> length g'" by auto
  with Cons.prems show ?case by auto
qed

lemma re_match_sound:
  assumes "re_match_PREFIX_RE name = Some g"
  shows "g \<noteq> [] \<and> newline \<notin> set g
         \<and> (\<exists>a t. name = ''HK'' @ a @ ''TypeIdentifier'' @ g @ t \<and> newline \<notin> set a
                  \<and> (t = [] \<or> t = [newline]))"
proof -
  from assms obtain rest where lit: "match_literal ''HK'' name = Some rest"
    and ds: "match_dotstar rest = Some g"
    by (auto simp: re_match_PREFIX_RE_def split: option.splits)
  from lit have name: "name = ''HK'' @ rest" by (simp only: match_literal_iff)
  from ds obtain a s' where split: "rest = a @ s'" "newline \<notin> set a" "match_marker s' = Some g"
    using match_dotstar_sound by blast
  from split(3) have g: "g \<noteq> []" "newline \<notin> set g"
    and "s' = ''TypeIdentifier'' @ g @ [] \<or> s' = ''TypeIdentifier'' @ g @ [newline]"
    by (simp_all add: match_marker_iff)
  then obtain t where "s' = ''TypeIdentifier'' @ g @ t" "t = [] \<or> t = [newline]" by blast
  with name split g show ?thesis by auto
qed

lemma re_match_complete:
  assumes "name = ''HK'' @ a @ ''TypeIdentifier'' @ r @ t"
    and "newline \<notin> set a" and "newline \<notin> set r" and "r \<noteq> []" and "t = [] \<or> t = [newline]"
  shows "\<exists>g. re_match_PREFIX_RE name = Some g \<and> length g \<le> length r"
proof -
  from assms have "match_marker (''TypeIdentifier'' @ r @ t) = Some r"
    by (subst match_marker_iff) auto
  from match_dotstar_complete [OF assms(2) this]
  obtain g where "match_dotstar (a @ ''TypeIdentifier'' @ r @ t) = Some g" "length g \<le> length r"
    by blast
  moreover have "match_literal ''HK'' name = Some (a @ ''TypeIdentifier'' @ r @ t)"
    using assms(1) by (simp only: match_literal_iff)
  ultimately show ?thesis by (simp add: re_match_PREFIX_RE_def)
qed

text \<open>
  A shortened name is never accepted again: what \<^verbatim>\<open>shorten_type_name\<close> returns
  does not match the expression.
\<close>

lemma shorten_type_name_not_twice:
  assumes "shorten_type_name name = Inr r"
  shows "shorten_type_name r = Inl (AttributeError ''group'')"
proof (cases "re_match_PREFIX_RE r")
  case None
  then show ?thesis by (simp add: shorten_type_name_def)
next
  case (Some r2)
  from assms have m: "re_match_PREFIX_RE name = Some r"
    by (simp add: shorten_type_name_def split: option.splits)
  from re_match_sound [OF m] obtain a t where r: "newline \<notin> set r"
    and name: "name = ''HK'' @ a @ ''TypeIdentifier'' @ r @ t" "newline \<notin> set a"
      "t = [] \<or> t = [newline]"
    by blast
  from re_match_sound [OF Some] obtain a2 t2 where r2: "r2 \<noteq> []" "newline \<notin> set r2"
    and rr: "r = ''HK'' @ a2 @ ''TypeIdentifier'' @ r2 @ t2" "newline \<notin> set a2"
      "t2 = [] \<or> t2 = [newline]"
    by blast
  from r rr have t2: "t2 = []" by auto
  have "name = ''HK'' @ (a @ ''TypeIdentifier'' @ ''HK'' @ a2) @ ''TypeIdentifier'' @ r2 @ t"
    using name(1) rr(1) t2 by simp
  moreover have "newline \<notin> set (a @ ''TypeIdentifier'' @ ''HK'' @ a2)"
    using name(2) rr(2) by (simp add: newline_def)
  ultimately obtain g where "re_match_PREFIX_RE name = Some g" "length g \<le> length r2"
    using re_match_complete [OF _ _ r2(2) r2(1) name(3)] by blast
  with m have "length r \<le> length r2" by simp
  with rr(1) have False by simp
  then show ?thesis ..
qed

text \<open>
  Claim C4, as the code has it. For a name without a line feed,
  \<^verbatim>\<open>shorten_type_name\<close> returns a value exactly when the name is \<^verbatim>\<open>HK\<close>, anything,
  \<^verbatim>\<open>TypeIdentifier\<close> and a non-empty rest; the value is then such a rest, the shortest
  one (the suffix after the last marker token that leaves a non-empty rest); for every
  other such name the call raises AttributeError.
\<close>

theorem shorten_type_name_plain:
  assumes "newline \<notin> set name"
  shows "case shorten_type_name name of
           Inr r \<Rightarrow> marker_suffix name r \<and> (\<forall>r'. marker_suffix name r' \<longrightarrow> length r \<le> length r')
         | Inl e \<Rightarrow> e = AttributeError ''group'' \<and> (\<forall>r'. \<not> marker_suffix name r')"
proof -
  have shortest: "\<exists>g. re_match_PREFIX_RE name = Some g \<and> length g \<le> length r'"
    if "marker_suffix name r'" for r'
  proof -
    from that obtain a where "r' \<noteq> []" and name: "name = ''HK'' @ a @ ''TypeIdentifier'' @ r' @ []"
      by (auto simp: marker_suffix_iff)
    moreover from assms name have "newline \<notin> set a" "newline \<notin> set r'" by auto
    ultimately show ?thesis using re_match_complete by blast
  qed
  show ?thesis
  proof (cases "re_match_PREFIX_RE name")
    case None
    with shortest have "\<not> marker_suffix name r'" for r' by fastforce
    with None show ?thesis by (simp add: shorten_type_name_def)
  next
    case (Some g)
    from re_match_sound [OF Some] obtain a t where "g \<noteq> []"
      and name: "name = ''HK'' @ a @ ''TypeIdentifier'' @ g @ t" and "t = [] \<or> t = [newline]"
      by blast
    with assms have "t = []" by auto
    with name \<open>g \<noteq> []\<close> have "marker_suffix name g" by (auto simp: marker_suffix_iff)
    moreover have "length g \<le> length r'" if "marker_suffix name r'" for r'
      using shortest [OF that] Some by auto
    ultimately show ?thesis using Some by (simp add: shorten_type_name_def)
  qed
qed

theorem shorten_type_name_plain_witness:
  "newline \<notin> set ''HKQuantityTypeIdentifierStepCount''
   \<and> shorten_type_name ''HKQuantityTypeIdentifierStepCount'' = Inr ''StepCount''
   \<and> marker_suffix ''HKQuantityTypeIdentifierStepCount'' ''StepCount''"
  using shorten_type_name_plain [of "''HKQuantityTypeIdentifierStepCount''"]
  by (simp add: newline_def shorten_type_name_def re_match_PREFIX_RE_def match_marker_def
                match_group_end_def)


text \<open>
  Claim C4, as stated, at a name that matches the pattern and ends in a line feed:
  \<^verbatim>\<open>$\<close> matches before the final line feed, so the value returned is not the whole
  suffix after the marker token.
\<close>

theorem shorten_type_name_trailing_newline:
  "shorten_type_name (''HKQuantityTypeIdentifierStepCount'' @ [newline]) = Inr ''StepCount''
   \<and> ''StepCount'' \<noteq> ''StepCount'' @ [newline]"
  by (simp add: newline_def shorten_type_name_def re_match_PREFIX_RE_def match_marker_def
                match_group_end_def)

section \<open>Properties of the constructor\<close>

lemmas eval_defs =
  HealthDataExtractor_init_def shorten_type_names_def count_record_types_def
  count_tags_and_fields_def counter_incr_def open_for_writing_def shorten_type_name_def
  re_match_PREFIX_RE_def match_marker_def match_group_end_def newline_def
  extract_method_def write_records_def main_def HealthDataExtractor_str_def

lemma shorten_nodes_keeps_typeless:
  "shorten_nodes ns = Inr ns' \<Longrightarrow> list_ex typeless_record ns \<Longrightarrow> list_ex typeless_record ns'"
proof (induction ns arbitrary: ns')
  case Nil
  then show ?case by simp
next
  case (Cons n ns)
  then show ?case
    by (auto simp: typeless_record_def split: if_splits option.splits sum.splits)
qed

lemma count_record_types_loop_typeless:
  "list_ex typeless_record ns
     \<Longrightarrow> \<exists>w'. count_record_types_loop ns self w = Inl (KeyError ''type'', w') \<and> files w' = files w"
proof (induction ns arbitrary: self w)
  case Nil
  then show ?case by simp
next
  case (Cons n ns)
  show ?case
  proof (cases "typeless_record n")
    case True
    then show ?thesis by (simp add: typeless_record_def)
  next
    case False
    with Cons.prems have ex: "list_ex typeless_record ns" by simp
    from False consider
        (typed) t where "tag n = ''Record''" "map_of (attrib n) ''type'' = Some t"
      | (other) "tag n \<noteq> ''Record''"
      by (auto simp: typeless_record_def)
    then show ?thesis
    proof cases
      case typed
      with Cons.IH [OF ex] show ?thesis by simp
    next
      case other
      with Cons.IH [OF ex, of self w]
           Cons.IH [OF ex, of "self\<lparr>other_types := counter_incr (tag n) (other_types self)\<rparr>" w]
           Cons.IH [OF ex, of self "w\<lparr>stdout := stdout w @ [''Unknown node of type: '' @ tag n]\<rparr>"]
      show ?thesis by auto
    qed
  qed
qed

text \<open>
  Claim C10, as the code has it. For every document with a \<^verbatim>\<open>Record\<close> entry that
  has no \<^verbatim>\<open>type\<close> attribute, the constructor raises and leaves the files as they
  were. When normalization goes through, the exception is the KeyError for \<^verbatim>\<open>type\<close>
  of \<^verbatim>\<open>count_record_types\<close>; when another entry's type name does not match the
  pattern, it is the exception of normalization, raised before classification starts.
\<close>

theorem init_fails_on_typeless_record:
  assumes "list_ex typeless_record doc"
  shows "\<exists>e w'. HealthDataExtractor_init dir doc w = Inl (e, w') \<and> files w' = files w
           \<and> (case shorten_nodes doc of Inl e' \<Rightarrow> e = e' | Inr ns \<Rightarrow> e = KeyError ''type'')"
proof (cases "shorten_nodes doc")
  case (Inl e')
  then show ?thesis
    by (simp add: HealthDataExtractor_init_def shorten_type_names_def)
next
  case (Inr ns)
  with assms have "list_ex typeless_record ns" by (rule shorten_nodes_keeps_typeless [rotated])
  from count_record_types_loop_typeless [OF this]
  obtain w' where "count_record_types_loop ns
      \<lparr>directory = dir, nodes = ns, record_types = [], other_types = [], tags = [],
       fields_counter = [], handles = [], paths = []\<rparr> w = Inl (KeyError ''type'', w')"
    "files w' = files w" by blast
  with Inr show ?thesis
    by (simp add: HealthDataExtractor_init_def shorten_type_names_def count_record_types_def)
qed

theorem init_fails_on_typeless_record_witness:
  "list_ex typeless_record
     [\<lparr>tag = ''Record'', attrib = [(''type'', ''HKQuantityTypeIdentifierStepCount'')]\<rparr>,
      \<lparr>tag = ''Record'', attrib = [(''value'', ''120'')]\<rparr>]
   \<and> HealthDataExtractor_init ''/data''
       [\<lparr>tag = ''Record'', attrib = [(''type'', ''HKQuantityTypeIdentifierStepCount'')]\<rparr>,
        \<lparr>tag = ''Record'', attrib = [(''value'', ''120'')]\<rparr>]
       \<lparr>files = [], stdout = []\<rparr>
     = Inl (KeyError ''type'', \<lparr>files = [], stdout = []\<rparr>)"
  using init_fails_on_typeless_record
    [of "[\<lparr>tag = ''Record'', attrib = [(''type'', ''HKQuantityTypeIdentifierStepCount'')]\<rparr>,
          \<lparr>tag = ''Record'', attrib = [(''value'', ''120'')]\<rparr>]" "''/data''"
        "\<lparr>files = [], stdout = []\<rparr>"]
  by (simp add: typeless_record_def eval_defs)


text \<open>
  Claim C10, as stated, at a document whose first \<^verbatim>\<open>Record\<close> has a type name
  that does not match the pattern and whose second has none: the constructor fails in
  normalization, not in classification.
\<close>

theorem init_typeless_record_fails_in_normalization:
  "HealthDataExtractor_init ''/data''
     [\<lparr>tag = ''Record'', attrib = [(''type'', ''StepCount'')]\<rparr>,
      \<lparr>tag = ''Record'', attrib = [(''value'', ''120'')]\<rparr>]
     \<lparr>files = [], stdout = []\<rparr>
   = Inl (AttributeError ''group'', \<lparr>files = [], stdout = []\<rparr>)
   \<and> shorten_nodes
     [\<lparr>tag = ''Record'', attrib = [(''type'', ''StepCount'')]\<rparr>,
      \<lparr>tag = ''Record'', attrib = [(''value'', ''120'')]\<rparr>]
   = Inl (AttributeError ''group'')"
  by (simp add: eval_defs)

text \<open>
  Claim C6, at a document whose one entry has an attribute: the constructor does not
  get to count the attribute keys, it raises AttributeError for \<^verbatim>\<open>self.field\<close>.
\<close>

theorem count_tags_and_fields_raises_on_attribute:
  "HealthDataExtractor_init ''/data''
     [\<lparr>tag = ''Workout'', attrib = [(''duration'', ''10'')]\<rparr>] \<lparr>files = [], stdout = []\<rparr>
   = Inl (AttributeError ''field'', \<lparr>files = [], stdout = []\<rparr>)"
  by (simp add: eval_defs)

section \<open>Properties of entries with an unknown tag\<close>

lemma count_record_types_loop_stdout_irrelevant:
  "files w1 = files w2
     \<Longrightarrow> without_stdout (count_record_types_loop ns self w1)
         = without_stdout (count_record_types_loop ns self w2)"
proof (induction ns arbitrary: self w1 w2)
  case Nil
  then show ?case by (simp add: without_stdout_def)
next
  case (Cons n ns)
  have "without_stdout (count_record_types_loop ns s (w1\<lparr>stdout := x\<rparr>))
          = without_stdout (count_record_types_loop ns s (w2\<lparr>stdout := y\<rparr>))" for s x y
    using Cons.prems by (intro Cons.IH) simp
  moreover have "without_stdout (count_record_types_loop ns s w1)
          = without_stdout (count_record_types_loop ns s w2)" for s
    using Cons.prems by (intro Cons.IH)
  ultimately show ?case
    by (simp add: without_stdout_def split: option.splits)
qed

lemma count_record_types_loop_skips_unknown:
  "without_stdout (count_record_types_loop doc self w)
     = without_stdout (count_record_types_loop (known_part doc) self w)"
proof (induction doc arbitrary: self w)
  case Nil
  show ?case by (simp add: known_part_def)
next
  case (Cons n doc)
  show ?case
  proof (cases "unknown_tag n")
    case True
    have "without_stdout (count_record_types_loop doc self (w\<lparr>stdout := stdout w @ [''Unknown node of type: '' @ tag n]\<rparr>))
            = without_stdout (count_record_types_loop doc self w)"
      by (rule count_record_types_loop_stdout_irrelevant) simp
    with True Cons.IH [of self w] show ?thesis
      by (simp add: unknown_tag_def known_part_def)
  next
    case False
    then show ?thesis
      using Cons.IH by (auto simp: unknown_tag_def known_part_def without_stdout_def split: option.splits)
  qed
qed

lemma count_record_types_loop_prints_unknown:
  "count_record_types_loop doc self w = Inr (self', w')
     \<Longrightarrow> stdout w' = stdout w @ map unknown_message (filter unknown_tag doc)"
proof (induction doc arbitrary: self w)
  case Nil
  then show ?case by simp
next
  case (Cons n doc)
  then show ?case
    by (auto simp: unknown_tag_def unknown_message_def split: if_splits option.splits)
qed

lemma write_record_node_unknown:
  "unknown_tag n \<Longrightarrow> write_record_node n self w = Inr (self, w)"
  by (auto simp: unknown_tag_def write_record_node_def FIELDS_keys_def)

lemma write_record_loop_skips_unknown:
  "write_record_loop doc self w = write_record_loop (known_part doc) self w"
proof (induction doc arbitrary: self w)
  case Nil
  show ?case by (simp add: known_part_def)
next
  case (Cons n doc)
  show ?case
  proof (cases "unknown_tag n")
    case True
    with Cons.IH [of self w] show ?thesis
      by (simp add: write_record_node_unknown known_part_def)
  next
    case False
    with Cons.IH show ?thesis
      by (simp add: known_part_def split: sum.splits prod.splits)
  qed
qed

text \<open>Normalization keeps the tags, and commutes with leaving the unknown entries out.\<close>

lemma shorten_nodes_tags:
  "shorten_nodes ns = Inr ns' \<Longrightarrow> map tag ns' = map tag ns"
proof (induction ns arbitrary: ns')
  case Nil
  then show ?case by simp
next
  case (Cons n ns)
  then show ?case
    by (auto split: if_splits option.splits sum.splits)
qed

lemma shorten_nodes_known_part:
  "shorten_nodes ns = Inr ns' \<Longrightarrow> shorten_nodes (known_part ns) = Inr (known_part ns')"
proof (induction ns arbitrary: ns')
  case Nil
  then show ?case by (simp add: known_part_def)
next
  case (Cons n ns)
  then show ?case
    by (auto simp: known_part_def unknown_tag_def split: if_splits option.splits sum.splits)
qed

lemma unknown_messages_tags:
  "map tag ns' = map tag ns
     \<Longrightarrow> map unknown_message (filter unknown_tag ns') = map unknown_message (filter unknown_tag ns)"
proof (induction ns arbitrary: ns')
  case Nil
  then show ?case by simp
next
  case (Cons n ns)
  then obtain n' ms where "ns' = n' # ms" "tag n' = tag n" "map tag ms = map tag ns"
    by (cases ns') auto
  with Cons.IH [of ms] show ?case
    by (simp add: unknown_tag_def unknown_message_def)
qed

lemma tag_count_tags:
  "map tag ns' = map tag ns \<Longrightarrow> tag_count t ns' = tag_count t ns"
proof -
  assume "map tag ns' = map tag ns"
  then have "length (filter (\<lambda>x. x = t) (map tag ns')) = length (filter (\<lambda>x. x = t) (map tag ns))"
    by simp
  then show ?thesis by (simp add: tag_count_def filter_map o_def)
qed

text \<open>What classification leaves as it was, and its counters on the known entries alone.\<close>

lemma count_record_types_loop_keeps:
  "count_record_types_loop ns self w = Inr (self', w')
     \<Longrightarrow> nodes self' = nodes self \<and> directory self' = directory self
         \<and> handles self' = handles self \<and> paths self' = paths self \<and> files w' = files w"
proof (induction ns arbitrary: self w)
  case Nil
  then show ?case by simp
next
  case (Cons n ns)
  from Cons.prems show ?case
    by (auto split: if_splits option.splits dest!: Cons.IH)
qed

lemma count_record_types_loop_known_part:
  "count_record_types_loop ns self w = Inr (self', w')
     \<Longrightarrow> record_types self2 = record_types self \<Longrightarrow> other_types self2 = other_types self
     \<Longrightarrow> \<exists>self2' w2'. count_record_types_loop (known_part ns) self2 w2 = Inr (self2', w2')
            \<and> record_types self2' = record_types self' \<and> other_types self2' = other_types self'"
proof (induction ns arbitrary: self w self2 w2)
  case Nil
  then show ?case by (simp add: known_part_def)
next
  case (Cons n ns)
  show ?case
  proof (cases "unknown_tag n")
    case True
    with Cons.prems(1)
    have "count_record_types_loop ns self
            (w\<lparr>stdout := stdout w @ [''Unknown node of type: '' @ tag n]\<rparr>) = Inr (self', w')"
      by (simp add: unknown_tag_def)
    from Cons.IH [OF this Cons.prems(2,3), of w2] True show ?thesis
      by (simp add: known_part_def)
  next
    case False
    then consider (typed) t where "tag n = ''Record''" "map_of (attrib n) ''type'' = Some t"
      | (typeless) "tag n = ''Record''" "map_of (attrib n) ''type'' = None"
      | (single) "tag n \<in> {''ActivitySummary'', ''Workout''}"
      | (skipped) "tag n \<in> {''Export'', ''Me''}"
      by (auto simp: unknown_tag_def)
    then show ?thesis
    proof cases
      case typed
      with Cons.prems(1)
      have run: "count_record_types_loop ns
              (self\<lparr>record_types := counter_incr t (record_types self)\<rparr>) w = Inr (self', w')"
        by simp
      have "record_types (self2\<lparr>record_types := counter_incr t (record_types self2)\<rparr>)
              = record_types (self\<lparr>record_types := counter_incr t (record_types self)\<rparr>)"
        "other_types (self2\<lparr>record_types := counter_incr t (record_types self2)\<rparr>)
              = other_types (self\<lparr>record_types := counter_incr t (record_types self)\<rparr>)"
        using Cons.prems(2,3) by simp_all
      from Cons.IH [OF run this, of w2] typed False show ?thesis
        by (simp add: known_part_def)
    next
      case typeless
      with Cons.prems(1) show ?thesis by simp
    next
      case single
      with Cons.prems(1)
      have run: "count_record_types_loop ns
              (self\<lparr>other_types := counter_incr (tag n) (other_types self)\<rparr>) w = Inr (self', w')"
        by auto
      have "record_types (self2\<lparr>other_types := counter_incr (tag n) (other_types self2)\<rparr>)
              = record_types (self\<lparr>other_types := counter_incr (tag n) (other_types self)\<rparr>)"
        "other_types (self2\<lparr>other_types := counter_incr (tag n) (other_types self2)\<rparr>)
              = other_types (self\<lparr>other_types := counter_incr (tag n) (other_types self)\<rparr>)"
        using Cons.prems(2,3) by simp_all
      from Cons.IH [OF run this, of w2] single False show ?thesis
        by (auto simp: known_part_def)
    next
      case skipped
      with Cons.prems(1) have run: "count_record_types_loop ns self w = Inr (self', w')"
        by auto
      from Cons.IH [OF run Cons.prems(2,3), of w2] skipped False show ?thesis
        by (auto simp: known_part_def)
    qed
  qed
qed

text \<open>The tag counter, where the counting of tags and keys returns.\<close>

lemma map_of_counter_incr:
  "map_of (counter_incr k c) t
     = (if t = k then Some ((case map_of c k of None \<Rightarrow> 0 | Some n \<Rightarrow> n) + 1) else map_of c t)"
  by (auto simp: counter_incr_def update_conv' split: option.splits)

lemma count_keys_loop_returns:
  "count_keys_loop ks self = Inr self' \<longleftrightarrow> ks = [] \<and> self' = self"
  by (cases ks) auto

lemma count_tags_loop_returns:
  "count_tags_loop ns self = Inr self'
     \<Longrightarrow> (\<forall>n \<in> set ns. attrib n = [])
         \<and> record_types self' = record_types self \<and> other_types self' = other_types self
         \<and> map_of (tags self') t
             = (if map_of (tags self) t = None \<and> tag_count t ns = 0 then None
                else Some ((case map_of (tags self) t of None \<Rightarrow> 0 | Some k \<Rightarrow> k) + tag_count t ns))"
proof (induction ns arbitrary: self)
  case Nil
  then show ?case by (auto simp: tag_count_def split: option.splits)
next
  case (Cons n ns)
  let ?self1 = "self\<lparr>tags := counter_incr (tag n) (tags self)\<rparr>"
  from Cons.prems have keys: "map fst (attrib n) = []"
    and run: "count_tags_loop ns ?self1 = Inr self'"
    by (auto simp: count_keys_loop_returns split: sum.splits)
  from Cons.IH [OF run] keys show ?case
    by (auto simp: map_of_counter_incr tag_count_def split: option.splits)
qed

lemma count_tags_loop_without_attributes:
  "\<forall>n \<in> set ns. attrib n = [] \<Longrightarrow> \<exists>self'. count_tags_loop ns self = Inr self'"
  by (induction ns arbitrary: self) auto

text \<open>The text that the summary code builds for a counter has a line for each of its items.\<close>

lemma fold_append_lines:
  "fold (\<lambda>(key, count) s. s @ summary_line key count) items s0
     = s0 @ concat (map (\<lambda>(key, count). summary_line key count) items)"
  by (induction items arbitrary: s0) auto

lemma append_counter_local_lines:
  "append_counter_local s name counter
     = s @ [newline] @ name @ [newline]
         @ concat (map (\<lambda>(key, count). summary_line key count) (most_common counter))"
proof -
  have "(\<lambda>(key, count) s. s @ key @ '': '' @ digits count @ [newline])
          = (\<lambda>(key, count) s. s @ summary_line key count)"
    by (simp add: summary_line_def)
  then show ?thesis
    by (simp add: append_counter_local_def fold_append_lines)
qed

lemma append_counter_local_has_line:
  assumes "map_of counter key = Some count"
  shows "\<exists>before after. append_counter_local s name counter
            = before @ summary_line key count @ after"
proof -
  from assms have "(key, count) \<in> set (most_common counter)"
    by (auto simp: most_common_def dest: map_of_SomeD)
  then obtain xs ys where "most_common counter = xs @ (key, count) # ys"
    by (auto dest: split_list)
  then have "append_counter_local s name counter
      = (s @ [newline] @ name @ [newline] @ concat (map (\<lambda>(key, count). summary_line key count) xs))
        @ summary_line key count
        @ concat (map (\<lambda>(key, count). summary_line key count) ys)"
    by (simp add: append_counter_local_lines)
  then show ?thesis by blast
qed

text \<open>The constructor, step by step.\<close>

lemma init_returns:
  "HealthDataExtractor_init dir doc w = Inr (ex, w')
     \<longleftrightarrow> (\<exists>ns self2. shorten_nodes doc = Inr ns
            \<and> count_record_types_loop ns
                 \<lparr>directory = dir, nodes = ns, record_types = [], other_types = [], tags = [],
                  fields_counter = [], handles = [], paths = []\<rparr> w = Inr (self2, w')
            \<and> count_tags_loop (nodes self2) (self2\<lparr>tags := [], fields_counter := []\<rparr>) = Inr ex)"
  by (auto simp: HealthDataExtractor_init_def shorten_type_names_def count_record_types_def
                 count_tags_and_fields_def split: sum.splits prod.splits)

lemma init_known_part:
  assumes "HealthDataExtractor_init dir doc w = Inr (ex, w')"
  shows "(\<exists>ex0 w0. HealthDataExtractor_init dir (known_part doc) w = Inr (ex0, w0)
            \<and> record_types ex0 = record_types ex \<and> other_types ex0 = other_types ex
            \<and> files w0 = files w')
         \<and> files w' = files w
         \<and> stdout w' = stdout w @ map unknown_message (filter unknown_tag doc)
         \<and> (\<forall>t. tag_count t doc \<noteq> 0 \<longrightarrow> map_of (tags ex) t = Some (tag_count t doc))"
proof -
  let ?start = "\<lambda>ns. \<lparr>directory = dir, nodes = ns, record_types = [], other_types = [],
                      tags = [], fields_counter = [], handles = [], paths = []\<rparr>"
  from assms obtain ns self2 where norm: "shorten_nodes doc = Inr ns"
    and cls: "count_record_types_loop ns (?start ns) w = Inr (self2, w')"
    and cnt: "count_tags_loop (nodes self2) (self2\<lparr>tags := [], fields_counter := []\<rparr>) = Inr ex"
    unfolding init_returns by blast
  from count_record_types_loop_keeps [OF cls]
  have nodes2: "nodes self2 = ns" and files: "files w' = files w" by simp_all
  note tags = shorten_nodes_tags [OF norm]
  from count_tags_loop_returns [OF cnt] nodes2
  have bare: "\<forall>n \<in> set ns. attrib n = []"
    and same: "record_types ex = record_types self2" "other_types ex = other_types self2"
    and counted: "\<And>t. map_of (tags ex) t = (if tag_count t ns = 0 then None else Some (tag_count t ns))"
    by simp_all
  have out: "stdout w' = stdout w @ map unknown_message (filter unknown_tag doc)"
    using count_record_types_loop_prints_unknown [OF cls] unknown_messages_tags [OF tags]
    by simp
  have count: "map_of (tags ex) t = Some (tag_count t doc)" if "tag_count t doc \<noteq> 0" for t
    using counted [of t] that tag_count_tags [OF tags, of t] by simp
  \<comment> \<open>the same run on the known entries alone\<close>
  have norm0: "shorten_nodes (known_part doc) = Inr (known_part ns)"
    by (rule shorten_nodes_known_part [OF norm])
  from count_record_types_loop_known_part [OF cls, of "?start (known_part ns)" w]
  obtain self0 w0 where cls0:
      "count_record_types_loop (known_part ns) (?start (known_part ns)) w = Inr (self0, w0)"
    and same0: "record_types self0 = record_types self2" "other_types self0 = other_types self2"
    by auto
  from count_record_types_loop_keeps [OF cls0]
  have nodes0: "nodes self0 = known_part ns" and files0: "files w0 = files w" by simp_all
  from bare have "\<forall>n \<in> set (known_part ns). attrib n = []" by (simp add: known_part_def)
  from count_tags_loop_without_attributes [OF this]
  obtain ex0 where cnt0:
      "count_tags_loop (nodes self0) (self0\<lparr>tags := [], fields_counter := []\<rparr>) = Inr ex0"
    using nodes0 by metis
  from count_tags_loop_returns [OF cnt0]
  have "record_types ex0 = record_types self0" "other_types ex0 = other_types self0" by simp_all
  with same same0 have eq: "record_types ex0 = record_types ex" "other_types ex0 = other_types ex"
    by simp_all
  have "HealthDataExtractor_init dir (known_part doc) w = Inr (ex0, w0)"
    unfolding init_returns using norm0 cls0 cnt0 by blast
  with eq files files0 out count show ?thesis by auto
qed

text \<open>
  Claim C5, as the code has it. Entries with a tag outside the five known ones do not
  change what \<^verbatim>\<open>count_record_types\<close> returns or raises: object, counters and files
  are those of the document without them, and when it returns it has printed one line
  \<^verbatim>\<open>Unknown node of type: <tag>\<close> for each of them, in document order. The write
  pass does what it does on the document without them. Whenever the constructor
  returns, it returns on the document without them too, with the same record-type and
  singular-kind counters, which are the kinds that sinks are opened for, and with the
  same files; it has printed the line for each of them; and each of their tags is in
  the tag counter with the number of entries that have it, which is a line of the text
  that the summary code builds under \<^verbatim>\<open>Tags\<close>.
\<close>

theorem unknown_tag_reported_and_counted:
  "without_stdout (count_record_types_loop doc self w)
     = without_stdout (count_record_types_loop (known_part doc) self w)
   \<and> (\<forall>self' w'. count_record_types_loop doc self w = Inr (self', w')
         \<longrightarrow> stdout w' = stdout w @ map unknown_message (filter unknown_tag doc))
   \<and> write_record_loop doc self w = write_record_loop (known_part doc) self w
   \<and> (\<forall>ex w'. HealthDataExtractor_init dir doc w = Inr (ex, w')
         \<longrightarrow> (\<exists>ex0 w0. HealthDataExtractor_init dir (known_part doc) w = Inr (ex0, w0)
                  \<and> record_types ex0 = record_types ex \<and> other_types ex0 = other_types ex
                  \<and> files w0 = files w')
             \<and> files w' = files w
             \<and> stdout w' = stdout w @ map unknown_message (filter unknown_tag doc)
             \<and> (\<forall>n \<in> set doc. unknown_tag n
                   \<longrightarrow> map_of (tags ex) (tag n) = Some (tag_count (tag n) doc)
                       \<and> (\<exists>before after. append_counter_local [] ''Tags'' (tags ex)
                              = before @ summary_line (tag n) (tag_count (tag n) doc) @ after)))"
proof (intro conjI allI impI)
  show "without_stdout (count_record_types_loop doc self w)
     = without_stdout (count_record_types_loop (known_part doc) self w)"
    by (rule count_record_types_loop_skips_unknown)
  show "stdout w' = stdout w @ map unknown_message (filter unknown_tag doc)"
    if "count_record_types_loop doc self w = Inr (self', w')" for self' w'
    using that by (rule count_record_types_loop_prints_unknown)
  show "write_record_loop doc self w = write_record_loop (known_part doc) self w"
    by (rule write_record_loop_skips_unknown)
next
  fix ex w'
  assume init: "HealthDataExtractor_init dir doc w = Inr (ex, w')"
  note facts = init_known_part [OF init]
  from facts show "\<exists>ex0 w0. HealthDataExtractor_init dir (known_part doc) w = Inr (ex0, w0)
                  \<and> record_types ex0 = record_types ex \<and> other_types ex0 = other_types ex
                  \<and> files w0 = files w'" by blast
  from facts show "files w' = files w" by blast
  from facts show "stdout w' = stdout w @ map unknown_message (filter unknown_tag doc)" by blast
  show "\<forall>n \<in> set doc. unknown_tag n
           \<longrightarrow> map_of (tags ex) (tag n) = Some (tag_count (tag n) doc)
               \<and> (\<exists>before after. append_counter_local [] ''Tags'' (tags ex)
                      = before @ summary_line (tag n) (tag_count (tag n) doc) @ after)"
  proof (intro ballI impI)
    fix n assume "n \<in> set doc"
    then have "tag_count (tag n) doc \<noteq> 0"
      by (auto simp: tag_count_def filter_empty_conv)
    with facts have c: "map_of (tags ex) (tag n) = Some (tag_count (tag n) doc)" by blast
    from c append_counter_local_has_line [OF c]
    show "map_of (tags ex) (tag n) = Some (tag_count (tag n) doc)
               \<and> (\<exists>before after. append_counter_local [] ''Tags'' (tags ex)
                      = before @ summary_line (tag n) (tag_count (tag n) doc) @ after)"
      by blast
  qed
qed

theorem unknown_tag_reported_and_counted_witness:
  "unknown_tag \<lparr>tag = ''Foo'', attrib = []\<rparr>
   \<and> known_part [\<lparr>tag = ''Foo'', attrib = []\<rparr>, \<lparr>tag = ''Workout'', attrib = []\<rparr>]
       = [\<lparr>tag = ''Workout'', attrib = []\<rparr>]
   \<and> HealthDataExtractor_init ''/data''
        [\<lparr>tag = ''Foo'', attrib = []\<rparr>, \<lparr>tag = ''Workout'', attrib = []\<rparr>]
        \<lparr>files = [], stdout = []\<rparr>
     = Inr (\<lparr>directory = ''/data'',
            nodes = [\<lparr>tag = ''Foo'', attrib = []\<rparr>, \<lparr>tag = ''Workout'', attrib = []\<rparr>],
            record_types = [], other_types = [(''Workout'', 1)],
            tags = [(''Foo'', 1), (''Workout'', 1)],
            fields_counter = [], handles = [], paths = []\<rparr>,
           \<lparr>files = [], stdout = [''Unknown node of type: Foo'']\<rparr>)
   \<and> HealthDataExtractor_init ''/data'' [\<lparr>tag = ''Workout'', attrib = []\<rparr>]
        \<lparr>files = [], stdout = []\<rparr>
     = Inr (\<lparr>directory = ''/data'', nodes = [\<lparr>tag = ''Workout'', attrib = []\<rparr>],
            record_types = [], other_types = [(''Workout'', 1)], tags = [(''Workout'', 1)],
            fields_counter = [], handles = [], paths = []\<rparr>,
           \<lparr>files = [], stdout = []\<rparr>)
   \<and> tag_count ''Foo'' [\<lparr>tag = ''Foo'', attrib = []\<rparr>, \<lparr>tag = ''Workout'', attrib = []\<rparr>] = 1"
  using unknown_tag_reported_and_counted
    [of "[\<lparr>tag = ''Foo'', attrib = []\<rparr>, \<lparr>tag = ''Workout'', attrib = []\<rparr>]"
        "\<lparr>directory = ''/data'', nodes = [], record_types = [], other_types = [], tags = [],
         fields_counter = [], handles = [], paths = []\<rparr>"
        "\<lparr>files = [], stdout = []\<rparr>" "''/data''"]
  by (simp add: unknown_tag_def known_part_def tag_count_def eval_defs)


text \<open>
  Claim C5, as stated, at the document with an entry \<^verbatim>\<open>Foo\<close> and an entry
  \<^verbatim>\<open>Workout\<close>: the object built holds \<^verbatim>\<open>Foo\<close> in the tag counter beside
  \<^verbatim>\<open>Workout\<close> and nowhere else, the line printed is the only mark of it being
  unknown, the three texts that the summary code builds list it under \<^verbatim>\<open>Tags\<close>, and
  the summary returned is the empty text.
\<close>

theorem unknown_tag_not_listed_as_unknown:
  "HealthDataExtractor_init ''/data''
     [\<lparr>tag = ''Foo'', attrib = []\<rparr>, \<lparr>tag = ''Workout'', attrib = []\<rparr>]
     \<lparr>files = [], stdout = []\<rparr>
     = Inr (\<lparr>directory = ''/data'',
            nodes = [\<lparr>tag = ''Foo'', attrib = []\<rparr>, \<lparr>tag = ''Workout'', attrib = []\<rparr>],
            record_types = [], other_types = [(''Workout'', 1)],
            tags = [(''Foo'', 1), (''Workout'', 1)],
            fields_counter = [], handles = [], paths = []\<rparr>,
           \<lparr>files = [], stdout = [''Unknown node of type: Foo'']\<rparr>)
   \<and> append_counter_local [] ''Tags'' [(''Foo'', 1), (''Workout'', 1)]
     = [newline] @ ''Tags'' @ [newline] @ ''Foo: 1'' @ [newline] @ ''Workout: 1'' @ [newline]
   \<and> append_counter_local [] ''Fields'' [] = [newline] @ ''Fields'' @ [newline]
   \<and> append_counter_local [] ''Record Types'' [] = [newline] @ ''Record Types'' @ [newline]
   \<and> HealthDataExtractor_str
        \<lparr>directory = ''/data'',
         nodes = [\<lparr>tag = ''Foo'', attrib = []\<rparr>, \<lparr>tag = ''Workout'', attrib = []\<rparr>],
         record_types = [], other_types = [(''Workout'', 1)],
         tags = [(''Foo'', 1), (''Workout'', 1)],
         fields_counter = [], handles = [], paths = []\<rparr> = []"
proof (intro conjI)
  show "append_counter_local [] ''Tags'' [(''Foo'', 1), (''Workout'', 1)]
     = [newline] @ ''Tags'' @ [newline] @ ''Foo: 1'' @ [newline] @ ''Workout: 1'' @ [newline]"
    by code_simp
qed (simp_all add: eval_defs append_counter_local_def most_common_def)

section \<open>Properties of the extraction and of the summary\<close>

lemma extract_method_never_returns: "extract_method self w \<noteq> Inr x"
  by (simp add: extract_method_def write_records_def split: sum.splits prod.splits)

lemma HealthDataExtractor_str_empty: "HealthDataExtractor_str self = []"
  by (simp add: HealthDataExtractor_str_def)

text \<open>
  Claim C1, at a document whose one entry is a \<^verbatim>\<open>Workout\<close>: classification
  discovers the kind \<^verbatim>\<open>Workout\<close>, and \<^verbatim>\<open>open_for_writing\<close> raises on it before
  any file is created.
\<close>

theorem open_for_writing_raises_on_workout:
  "HealthDataExtractor_init ''/data'' [\<lparr>tag = ''Workout'', attrib = []\<rparr>] \<lparr>files = [], stdout = []\<rparr>
     = Inr (\<lparr>directory = ''/data'', nodes = [\<lparr>tag = ''Workout'', attrib = []\<rparr>],
            record_types = [], other_types = [(''Workout'', 1)], tags = [(''Workout'', 1)],
            fields_counter = [], handles = [], paths = []\<rparr>,
           \<lparr>files = [], stdout = []\<rparr>)
   \<and> open_for_writing
        \<lparr>directory = ''/data'', nodes = [\<lparr>tag = ''Workout'', attrib = []\<rparr>],
         record_types = [], other_types = [(''Workout'', 1)], tags = [(''Workout'', 1)],
         fields_counter = [], handles = [], paths = []\<rparr>
        \<lparr>files = [], stdout = []\<rparr>
     = Inl (AttributeError ''group'', \<lparr>files = [], stdout = []\<rparr>)"
  by (simp add: eval_defs)

text \<open>
  Claim C2, at a document with one \<^verbatim>\<open>ActivitySummary\<close> and two \<^verbatim>\<open>Workout\<close>
  entries: the counters are 1 and 2, and the extraction raises with no file and no line
  written.
\<close>

theorem extract_writes_no_line:
  "HealthDataExtractor_init ''/data''
     [\<lparr>tag = ''ActivitySummary'', attrib = []\<rparr>, \<lparr>tag = ''Workout'', attrib = []\<rparr>,
      \<lparr>tag = ''Workout'', attrib = []\<rparr>] \<lparr>files = [], stdout = []\<rparr>
     = Inr (\<lparr>directory = ''/data'',
            nodes = [\<lparr>tag = ''ActivitySummary'', attrib = []\<rparr>, \<lparr>tag = ''Workout'', attrib = []\<rparr>,
                     \<lparr>tag = ''Workout'', attrib = []\<rparr>],
            record_types = [], other_types = [(''ActivitySummary'', 1), (''Workout'', 2)],
            tags = [(''ActivitySummary'', 1), (''Workout'', 2)],
            fields_counter = [], handles = [], paths = []\<rparr>,
           \<lparr>files = [], stdout = []\<rparr>)
   \<and> extract_method
        \<lparr>directory = ''/data'',
         nodes = [\<lparr>tag = ''ActivitySummary'', attrib = []\<rparr>, \<lparr>tag = ''Workout'', attrib = []\<rparr>,
                  \<lparr>tag = ''Workout'', attrib = []\<rparr>],
         record_types = [], other_types = [(''ActivitySummary'', 1), (''Workout'', 2)],
         tags = [(''ActivitySummary'', 1), (''Workout'', 2)],
         fields_counter = [], handles = [], paths = []\<rparr>
        \<lparr>files = [], stdout = []\<rparr>
     = Inl (AttributeError ''group'', \<lparr>files = [], stdout = []\<rparr>)"
  by (simp add: eval_defs)

text \<open>
  Claim C7, at a document with two \<^verbatim>\<open>Workout\<close> entries and one \<^verbatim>\<open>Me\<close>: the tag
  counter holds both tags, and the summary is the empty text.
\<close>

theorem summary_is_empty:
  "HealthDataExtractor_init ''/data''
     [\<lparr>tag = ''Workout'', attrib = []\<rparr>, \<lparr>tag = ''Me'', attrib = []\<rparr>,
      \<lparr>tag = ''Workout'', attrib = []\<rparr>] \<lparr>files = [], stdout = []\<rparr>
     = Inr (\<lparr>directory = ''/data'',
            nodes = [\<lparr>tag = ''Workout'', attrib = []\<rparr>, \<lparr>tag = ''Me'', attrib = []\<rparr>,
                     \<lparr>tag = ''Workout'', attrib = []\<rparr>],
            record_types = [], other_types = [(''Workout'', 2)],
            tags = [(''Workout'', 2), (''Me'', 1)],
            fields_counter = [], handles = [], paths = []\<rparr>,
           \<lparr>files = [], stdout = []\<rparr>)
   \<and> HealthDataExtractor_str
        \<lparr>directory = ''/data'',
         nodes = [\<lparr>tag = ''Workout'', attrib = []\<rparr>, \<lparr>tag = ''Me'', attrib = []\<rparr>,
                  \<lparr>tag = ''Workout'', attrib = []\<rparr>],
         record_types = [], other_types = [(''Workout'', 2)],
         tags = [(''Workout'', 2), (''Me'', 1)],
         fields_counter = [], handles = [], paths = []\<rparr> = []"
  by (simp add: eval_defs)


end
